theory Spec2Isabelle
  imports
    Main
    "HOL-Library.Word"
    "HOL-Library.Char_ord"
    "HOL-Library.List_Lexorder"
begin

section \<open>The uWebSockets adapter of Hattip\<close>

text \<open>
  A shallow embedding of \<^verbatim>\<open>packages/adapter/adapter-uwebsockets/src/common.ts\<close>:
  \<^verbatim>\<open>createServer\<close>, the request callback it registers with \<^verbatim>\<open>app.any\<close>
  (origin resolution, \<^verbatim>\<open>getForwardedHeader\<close>, the request body stream,
  \<^verbatim>\<open>handleError\<close>, \<^verbatim>\<open>finish\<close>) and \<^verbatim>\<open>ipAddressBytesToString\<close>.

  JavaScript strings are \<^typ>\<open>string\<close>, one \<^typ>\<open>char\<close> per code unit below 256;
  the header names and values that the native engine hands over are lists of 16-bit
  code units, since \<^verbatim>\<open>Headers.append\<close> tells the two apart.
  A value that is a string or one of \<^verbatim>\<open>undefined\<close>, \<^verbatim>\<open>null\<close>, \<^verbatim>\<open>false\<close>
  is a \<^typ>\<open>string option\<close>, with \<^const>\<open>None\<close> for the three falsy non-strings.
  Byte buffers are lists of \<^typ>\<open>8 word\<close>.
\<close>

subsection \<open>JavaScript values and strings\<close>

type_synonym bytes = "8 word list"

text \<open>Truthiness: \<^verbatim>\<open>undefined\<close>, \<^verbatim>\<open>null\<close>, \<^verbatim>\<open>false\<close> and the empty string are falsy.\<close>

definition truthy :: "string option \<Rightarrow> bool" where
  "truthy v = (case v of None \<Rightarrow> False | Some s \<Rightarrow> s \<noteq> [])"

text \<open>\<^verbatim>\<open>a || b\<close> on such values.\<close>

definition js_or :: "string option \<Rightarrow> string option \<Rightarrow> string option" where
  "js_or a b = (if truthy a then a else b)"

text \<open>\<^verbatim>\<open>b && s\<close> for a boolean \<^verbatim>\<open>b\<close> and a string \<^verbatim>\<open>s\<close>.\<close>

definition js_and :: "bool \<Rightarrow> string \<Rightarrow> string option" where
  "js_and b s = (if b then Some s else None)"

definition lower_char :: "char \<Rightarrow> char" where
  "lower_char c =
     (let n = (of_char c :: nat) in if 65 \<le> n \<and> n \<le> 90 then char_of (n + 32) else c)"

definition lower :: "string \<Rightarrow> string" where
  "lower s = map lower_char s"

text \<open>
  \<^verbatim>\<open>String.prototype.trim\<close>: white space and line terminators are removed at both
  ends. Of the code points ECMAScript lists, those below 256 are TAB, LF, VT, FF, CR,
  SP and NBSP.
\<close>

definition js_space :: "char \<Rightarrow> bool" where
  "js_space c = ((of_char c :: nat) \<in> {9, 10, 11, 12, 13, 32, 160})"

definition trim :: "string \<Rightarrow> string" where
  "trim s = rev (dropWhile js_space (rev (dropWhile js_space s)))"

text \<open>\<^verbatim>\<open>s.split(",", 1)[0]\<close>: the part of \<^verbatim>\<open>s\<close> before its first comma.\<close>

definition split_comma_first :: "string \<Rightarrow> string" where
  "split_comma_first s = takeWhile (\<lambda>c. c \<noteq> CHR '','') s"

text \<open>\<^verbatim>\<open>Array.prototype.join\<close> on strings.\<close>

fun join :: "string \<Rightarrow> string list \<Rightarrow> string" where
  "join sep [] = []"
| "join sep [x] = x"
| "join sep (x # y # ys) = x @ sep @ join sep (y # ys)"

text \<open>
  \<^verbatim>\<open>Number.prototype.toString(radix)\<close> on a non-negative integer, and with it the
  decimal conversion of \<^verbatim>\<open>result += n\<close> and of a template literal.
\<close>

definition digit_char :: "nat \<Rightarrow> char" where
  "digit_char d = (if d < 10 then char_of (48 + d) else char_of (87 + d))"

function toString_radix :: "nat \<Rightarrow> nat \<Rightarrow> string" where
  "toString_radix radix n =
     (if radix < 2 \<or> n < radix then [digit_char n]
      else toString_radix radix (n div radix) @ [digit_char (n mod radix)])"
  by pat_completeness auto
termination
  by (relation "measure (\<lambda>(radix, n). n)") auto

declare toString_radix.simps [simp del]

subsection \<open>The platform's Headers class\<close>

text \<open>
  The Fetch standard's \<^verbatim>\<open>Headers\<close> object is a header list: the pairs it accepted so
  far, in order. Its readers compare names without regard to ASCII case and return them
  lowercased, so the model stores the name lowercased; the value is stored with leading
  and trailing HTTP white space (TAB, LF, CR, SP) removed, as \<^verbatim>\<open>append\<close> normalises
  it.
\<close>

type_synonym headers = "(string \<times> string) list"

definition http_space :: "char \<Rightarrow> bool" where
  "http_space c = ((of_char c :: nat) \<in> {9, 10, 13, 32})"

definition http_strip :: "string \<Rightarrow> string" where
  "http_strip s = rev (dropWhile http_space (rev (dropWhile http_space s)))"

text \<open>
  The strings the native engine hands to the callback are JavaScript strings: lists of
  16-bit code units. \<^verbatim>\<open>append\<close> takes its two arguments as \<^verbatim>\<open>ByteString\<close>, and the
  conversion throws a \<^verbatim>\<open>TypeError\<close> on a code unit above 255.
\<close>

type_synonym code_units = "16 word list"

definition js :: "string \<Rightarrow> code_units" where
  "js s = map (\<lambda>c. of_char c) s"

definition ByteString :: "code_units \<Rightarrow> string option" where
  "ByteString u =
     (if list_all (\<lambda>w. unat w \<le> 255) u then Some (map (\<lambda>w. char_of (unat w)) u) else None)"

text \<open>
  A header name is a token: one or more of the letters, the digits and
  \<^verbatim>\<open>! # $ % & ' * + - . ^ _ ` | ~\<close>. A header value, once normalised, holds no NUL,
  LF or CR.
\<close>

definition token_char :: "char \<Rightarrow> bool" where
  "token_char c =
     (let n = (of_char c :: nat)
      in (48 \<le> n \<and> n \<le> 57) \<or> (65 \<le> n \<and> n \<le> 90) \<or> (97 \<le> n \<and> n \<le> 122) \<or>
         n \<in> {33, 35, 36, 37, 38, 39, 42, 43, 45, 46, 94, 95, 96, 124, 126})"

definition header_name_ok :: "string \<Rightarrow> bool" where
  "header_name_ok name = (name \<noteq> [] \<and> list_all token_char name)"

definition header_value_ok :: "string \<Rightarrow> bool" where
  "header_value_ok v = list_all (\<lambda>c. (of_char c :: nat) \<notin> {0, 10, 13}) v"

text \<open>
  What \<^verbatim>\<open>append\<close> stores for a name and a value, or \<^const>\<open>None\<close> where it throws: the
  conversion of either argument fails, the name is not a token, or the normalised value
  is not a header value.
\<close>

definition accept_entry :: "code_units \<times> code_units \<Rightarrow> (string \<times> string) option" where
  "accept_entry e =
     (case ByteString (fst e) of
        None \<Rightarrow> None
      | Some name \<Rightarrow>
          (case ByteString (snd e) of
             None \<Rightarrow> None
           | Some v \<Rightarrow>
               if header_name_ok name \<and> header_value_ok (http_strip v)
               then Some (lower name, http_strip v) else None))"

datatype callback_error = TypeError_Headers_append

definition Headers_append ::
  "headers \<Rightarrow> code_units \<Rightarrow> code_units \<Rightarrow> callback_error + headers"
where
  "Headers_append hs k v =
     (case accept_entry (k, v) of
        None \<Rightarrow> Inl TypeError_Headers_append
      | Some p \<Rightarrow> Inr (hs @ [p]))"

text \<open>
  \<^verbatim>\<open>const headers = new Headers(); req.forEach((key, value) => headers.append(key, value))\<close>,
  at lines 86 and 87, before the \<^verbatim>\<open>try\<close> block: the first entry that \<^verbatim>\<open>append\<close>
  rejects ends the loop and the callback with its \<^verbatim>\<open>TypeError\<close>.
\<close>

fun append_all ::
  "headers \<Rightarrow> (code_units \<times> code_units) list \<Rightarrow> callback_error + headers"
where
  "append_all hs [] = Inr hs"
| "append_all hs ((k, v) # es) =
     (case Headers_append hs k v of Inl e \<Rightarrow> Inl e | Inr hs' \<Rightarrow> append_all hs' es)"

definition request_headers ::
  "(code_units \<times> code_units) list \<Rightarrow> callback_error + headers"
where
  "request_headers entries = append_all [] entries"

text \<open>
  The \<^verbatim>\<open>Headers\<close> object of a \<^verbatim>\<open>Response\<close> exists when \<^verbatim>\<open>finish\<close> runs: it is the
  header list of the entries it holds, each name lowercased and each value normalised.
\<close>

definition Headers_of :: "(string \<times> string) list \<Rightarrow> headers" where
  "Headers_of entries = map (\<lambda>(k, v). (lower k, http_strip v)) entries"

text \<open>\<^verbatim>\<open>get\<close>: \<^verbatim>\<open>null\<close> without the name, else its values joined by comma and space.\<close>

definition Headers_get :: "headers \<Rightarrow> string \<Rightarrow> string option" where
  "Headers_get hs name =
     (let vs = map snd (filter (\<lambda>(k, v). k = lower name) hs)
      in if vs = [] then None else Some (join '', '' vs))"

definition Headers_getSetCookie :: "headers \<Rightarrow> string list" where
  "Headers_getSetCookie hs = map snd (filter (\<lambda>(k, v). k = ''set-cookie'') hs)"

text \<open>
  \<^verbatim>\<open>keys()\<close> iterates over the standard's ``sort and combine'' of the header list: the
  names in ascending order, each once, but \<^verbatim>\<open>set-cookie\<close> once per value.
\<close>

definition Headers_keys :: "headers \<Rightarrow> string list" where
  "Headers_keys hs =
     concat (map (\<lambda>name. if name = ''set-cookie''
                          then replicate (length (Headers_getSetCookie hs)) name
                          else [name])
                 (sort (remdups (map fst hs))))"

subsection \<open>The platform's URL constructor\<close>

text \<open>
  \<^verbatim>\<open>new URL(origin)\<close> is called without a base, so it throws a \<^verbatim>\<open>TypeError\<close> unless
  the input, with leading and trailing C0 controls and spaces removed and every TAB, LF
  and CR deleted, starts with a scheme (an ASCII letter, then letters, digits,
  \<^verbatim>\<open>+\<close>, \<^verbatim>\<open>-\<close>, \<^verbatim>\<open>.\<close>) followed by a colon. That gate is modelled as the URL standard
  states it. What the parser makes of an input that has a scheme (its \<^verbatim>\<open>protocol\<close> and
  \<^verbatim>\<open>host\<close>, or a \<^verbatim>\<open>TypeError\<close> after all) is a parameter \<open>parts\<close> of the model.
\<close>

record url =
  url_protocol :: string
  url_host :: string

definition c0_or_space :: "char \<Rightarrow> bool" where
  "c0_or_space c = ((of_char c :: nat) \<le> 32)"

definition tab_or_newline :: "char \<Rightarrow> bool" where
  "tab_or_newline c = ((of_char c :: nat) \<in> {9, 10, 13})"

definition url_input :: "string \<Rightarrow> string" where
  "url_input s =
     filter (\<lambda>c. \<not> tab_or_newline c)
       (rev (dropWhile c0_or_space (rev (dropWhile c0_or_space s))))"

definition ascii_alpha :: "char \<Rightarrow> bool" where
  "ascii_alpha c =
     (let n = (of_char c :: nat) in (65 \<le> n \<and> n \<le> 90) \<or> (97 \<le> n \<and> n \<le> 122))"

definition scheme_char :: "char \<Rightarrow> bool" where
  "scheme_char c =
     (let n = (of_char c :: nat)
      in ascii_alpha c \<or> (48 \<le> n \<and> n \<le> 57) \<or> n \<in> {43, 45, 46})"

definition has_scheme :: "string \<Rightarrow> bool" where
  "has_scheme s =
     (case s of
        [] \<Rightarrow> False
      | c # cs \<Rightarrow>
          ascii_alpha c \<and>
          (case dropWhile scheme_char cs of [] \<Rightarrow> False | d # ds \<Rightarrow> d = CHR '':''))"

definition URL_new :: "(string \<Rightarrow> url option) \<Rightarrow> string \<Rightarrow> url option" where
  "URL_new parts s = (let t = url_input s in if has_scheme t then parts t else None)"

subsection \<open>createServer\<close>

datatype error = TypeError_Invalid_URL | Error_SSL_requires_appOptions

text \<open>
  \<^verbatim>\<open>UWebSocketAdapterOptions\<close>; an absent field is \<^const>\<open>None\<close>. The callback
  \<^verbatim>\<open>configureServer\<close> is application code that receives the app; it is a function on
  apps here, and a callback that throws is not modelled.
\<close>

record 'app UWebSocketAdapterOptions =
  origin :: "string option"
  trustProxy :: "bool option"
  ssl :: "bool option"
  configureServer :: "('app \<Rightarrow> 'app) option"

text \<open>The two variables of \<^verbatim>\<open>process.env\<close> that \<^verbatim>\<open>createServer\<close> reads.\<close>

record process_env =
  ORIGIN :: "string option"
  TRUST_PROXY :: "string option"

text \<open>
  The app the native engine builds: \<^verbatim>\<open>SSLApp(appOptions)\<close>, \<^verbatim>\<open>App(appOptions)\<close>
  or \<^verbatim>\<open>App()\<close>.
\<close>

datatype 'o templated_app = SSLApp 'o | App "'o option"

text \<open>
  What \<^verbatim>\<open>createServer\<close> returns: the app with the catch-all route registered, and
  what the route's callback closes over: \<^verbatim>\<open>trustProxy\<close>, \<^verbatim>\<open>ssl\<close>, and the two
  variables \<^verbatim>\<open>protocol\<close> and \<^verbatim>\<open>host\<close> declared with \<^verbatim>\<open>let\<close> in the body of
  \<^verbatim>\<open>createServer\<close>.
\<close>

record 'o server =
  app :: "'o templated_app"
  srv_trustProxy :: bool
  srv_ssl :: bool
  protocol :: "string option"
  host :: "string option"

text \<open>\<^verbatim>\<open>protocol.slice(0, -1)\<close>\<close>

definition slice_0_minus1 :: "string \<Rightarrow> string" where
  "slice_0_minus1 s = butlast s"

text \<open>
  \<^verbatim>\<open>let { protocol, host } = origin ? new URL(origin) : {}\<close>: a falsy origin gives
  two undefined variables; a truthy one is parsed, and the constructor may throw.
\<close>

definition origin_parts ::
  "(string \<Rightarrow> url option) \<Rightarrow> string option \<Rightarrow> error + (string option \<times> string option)"
where
  "origin_parts parts origin' =
     (case origin' of
        None \<Rightarrow> Inr (None, None)
      | Some s \<Rightarrow>
          if s = [] then Inr (None, None)
          else (case URL_new parts s of
                  None \<Rightarrow> Inl TypeError_Invalid_URL
                | Some u \<Rightarrow> Inr (Some (url_protocol u), Some (url_host u))))"

text \<open>
  \<^verbatim>\<open>if (ssl && !appOptions) throw new Error("SSL requires appOptions")\<close>, then
  \<^verbatim>\<open>ssl ? SSLApp(appOptions!) : appOptions ? App(appOptions) : App()\<close>.
\<close>

definition make_app :: "bool \<Rightarrow> 'o option \<Rightarrow> error + 'o templated_app" where
  "make_app ssl' appOptions =
     (case appOptions of
        None \<Rightarrow> if ssl' then Inl Error_SSL_requires_appOptions else Inr (App None)
      | Some opts \<Rightarrow> Inr (if ssl' then SSLApp opts else App (Some opts)))"

definition createServer ::
  "(string \<Rightarrow> url option) \<Rightarrow> process_env \<Rightarrow>
   ('o templated_app) UWebSocketAdapterOptions option \<Rightarrow> 'o option \<Rightarrow> error + 'o server"
where
  "createServer parts env adapterOptions appOptions =
    (let origin' = (case Option.bind adapterOptions origin of
                      None \<Rightarrow> ORIGIN env
                    | Some s \<Rightarrow> Some s);
         trustProxy' = (case Option.bind adapterOptions trustProxy of
                          None \<Rightarrow> TRUST_PROXY env = Some ''1''
                        | Some b \<Rightarrow> b);
         ssl' = (case Option.bind adapterOptions ssl of None \<Rightarrow> False | Some b \<Rightarrow> b);
         configureServer' = Option.bind adapterOptions configureServer
     in
       case origin_parts parts origin' of
         Inl e \<Rightarrow> Inl e
       | Inr (protocol0, host0) \<Rightarrow>
           (let protocol1 = (if truthy protocol0 then map_option slice_0_minus1 protocol0
                             else protocol0)
            in
              case make_app ssl' appOptions of
                Inl e \<Rightarrow> Inl e
              | Inr app0 \<Rightarrow>
                  (let app1 = (case configureServer' of None \<Rightarrow> app0 | Some f \<Rightarrow> f app0)
                   in Inr \<lparr>app = app1, srv_trustProxy = trustProxy', srv_ssl = ssl',
                            protocol = protocol1, host = host0\<rparr>)))"

subsection \<open>ipAddressBytesToString\<close>

text \<open>
  \<^verbatim>\<open>DataView\<close> reads are big-endian. Each read below is guarded by the view's length,
  as the source guards it with \<^verbatim>\<open>view.byteLength\<close>.
\<close>

definition getUint8 :: "bytes \<Rightarrow> nat \<Rightarrow> nat" where
  "getUint8 view i = unat (view ! i)"

definition getUint16 :: "bytes \<Rightarrow> nat \<Rightarrow> nat" where
  "getUint16 view i = getUint8 view i * 256 + getUint8 view (i + 1)"

definition getUint32 :: "bytes \<Rightarrow> nat \<Rightarrow> nat" where
  "getUint32 view i = getUint16 view i * 65536 + getUint16 view (i + 2)"

definition ipAddressBytesToString :: "bytes \<Rightarrow> string" where
  "ipAddressBytesToString bs =
     (let view = (if length bs = 16
                  then (if getUint32 bs 0 = 0 \<and> getUint32 bs 4 = 0 \<and> getUint32 bs 8 = 65535
                        then drop 12 bs else bs)
                  else bs)
      in if length view = 4
         then join ''.'' (map (\<lambda>i. toString_radix 10 (getUint8 view i)) [0, 1, 2, 3])
         else if length view = 16
         then join '':'' (map (\<lambda>i. toString_radix 16 (getUint16 view i))
                               [0, 2, 4, 6, 8, 10, 12, 14])
         else [])"

subsection \<open>The request callback: origin resolution\<close>

text \<open>
  What the native engine hands to the callback: \<^verbatim>\<open>req.getCaseSensitiveMethod()\<close>,
  \<^verbatim>\<open>req.getUrl()\<close>, \<^verbatim>\<open>req.getQuery()\<close> (empty when there is none), the pairs
  \<^verbatim>\<open>req.forEach\<close> enumerates, and \<^verbatim>\<open>res.getRemoteAddress()\<close>.
\<close>

record native_request =
  req_method :: string
  req_url :: string
  req_query :: string
  req_headers :: "(code_units \<times> code_units) list"
  remoteAddress :: bytes

text \<open>\<^verbatim>\<open>v || ""\<close>\<close>

definition or_empty :: "string option \<Rightarrow> string" where
  "or_empty v = (case v of None \<Rightarrow> [] | Some s \<Rightarrow> s)"

definition getForwardedHeader :: "headers \<Rightarrow> string \<Rightarrow> string" where
  "getForwardedHeader hs name =
     trim (split_comma_first (or_empty (Headers_get hs (''x-forwarded-'' @ name))))"

text \<open>
  String concatenation converts its operand to a string; the operands below are never
  \<^const>\<open>None\<close> (lemma \<open>resolve_defined\<close>).
\<close>

definition js_str :: "string option \<Rightarrow> string" where
  "js_str v = (case v of None \<Rightarrow> ''undefined'' | Some s \<Rightarrow> s)"

text \<open>The values the callback computes from one request before it calls the handler.\<close>

record resolved =
  r_protocol :: string
  r_host :: string
  r_ip :: string
  r_url :: string

text \<open>
  Lines 83 to 118 of the callback. The assignments \<^verbatim>\<open>protocol = protocol || ...\<close> and
  \<^verbatim>\<open>host = host || ...\<close> write the variables of \<^verbatim>\<open>createServer\<close>'s scope, so the
  server is returned updated. When copying the headers throws, the callback ends there,
  before either assignment. The warning on the console is not modelled.
\<close>

definition resolve ::
  "'o server \<Rightarrow> native_request \<Rightarrow> callback_error + (resolved \<times> 'o server)"
where
  "resolve srv req =
     (case request_headers (req_headers req) of
        Inl e \<Rightarrow> Inl e
      | Inr hs \<Rightarrow>
         Inr
          (let protocol' =
                 js_or (protocol srv)
                   (js_or (js_and (srv_trustProxy srv) (getForwardedHeader hs ''proto''))
                      (js_or (js_and (srv_ssl srv) ''https'') (Some ''http'')));
               ipAddress = ipAddressBytesToString (remoteAddress req);
               host' =
                 js_or (host srv)
                   (js_or (js_and (srv_trustProxy srv) (getForwardedHeader hs ''host''))
                      (js_or (Headers_get hs ''host'') (Some ipAddress)));
               host'' = (if \<not> truthy host' then Some ''localhost'' else host');
               ip = or_empty
                      (js_or (js_and (srv_trustProxy srv) (getForwardedHeader hs ''for''))
                         (js_or (Some ipAddress) (Some [])));
               url' = js_str protocol' @ ''://'' @ js_str host'' @ req_url req @
                        (if req_query req \<noteq> [] then ''?'' @ req_query req else [])
           in (\<lparr>r_protocol = js_str protocol', r_host = js_str host'', r_ip = ip,
                r_url = url'\<rparr>,
               srv\<lparr>protocol := protocol', host := host''\<rparr>)))"

text \<open>
  The same server serving a sequence of requests, one after the other. A callback that
  threw has changed no variable of the server; the next request finds them as they
  were.
\<close>

fun serve :: "'o server \<Rightarrow> native_request list \<Rightarrow> (callback_error + resolved) list" where
  "serve srv [] = []"
| "serve srv (req # reqs) =
     (case resolve srv req of
        Inl e \<Rightarrow> Inl e # serve srv reqs
      | Inr (r, srv') \<Rightarrow> Inr r # serve srv' reqs)"

subsection \<open>The connection: abort flag, native calls, request body stream\<close>

text \<open>
  The calls the callback makes on the native response \<^verbatim>\<open>res\<close>. \<^verbatim>\<open>res.end()\<close> is
  \<open>End None\<close> and \<^verbatim>\<open>res.end(chunk)\<close> is \<open>End (Some chunk)\<close>. \<^verbatim>\<open>res.cork(f)\<close>
  runs \<^verbatim>\<open>f\<close> at once and is not recorded.
\<close>

datatype native_call =
    WriteStatus string
  | WriteHeader string string
  | Write bytes
  | End "bytes option"

text \<open>
  The trace of a connection: the native calls of the adapter, and \<open>Aborted\<close> where the
  engine ran the callback registered with \<^verbatim>\<open>res.onAborted\<close>.
\<close>

datatype trace_item = Call native_call | Aborted

text \<open>
  The platform's \<^verbatim>\<open>ReadableStream\<close> with its default controller, as far as the
  adapter and one reader use it: the queue of chunks, whether \<^verbatim>\<open>close\<close> was called,
  and whether \<^verbatim>\<open>error\<close> was.
\<close>

record readable_stream =
  queue :: "bytes list"
  closeRequested :: bool
  errored :: bool

datatype stream_error = TypeError_stream_not_readable

text \<open>\<^verbatim>\<open>controller.enqueue\<close> and \<^verbatim>\<open>controller.close\<close> throw once the stream is
  closing or errored.\<close>

definition enqueue :: "readable_stream \<Rightarrow> bytes \<Rightarrow> stream_error + readable_stream" where
  "enqueue st chunk =
     (if closeRequested st \<or> errored st then Inl TypeError_stream_not_readable
      else Inr (st\<lparr>queue := queue st @ [chunk]\<rparr>))"

definition close :: "readable_stream \<Rightarrow> stream_error + readable_stream" where
  "close st =
     (if closeRequested st \<or> errored st then Inl TypeError_stream_not_readable
      else Inr (st\<lparr>closeRequested := True\<rparr>))"

text \<open>
  One \<^verbatim>\<open>reader.read()\<close>: it rejects on an errored stream, returns the oldest chunk,
  reports the end of a closed and emptied stream, and otherwise stays pending.
\<close>

datatype read_result = ReadChunk bytes | ReadDone | ReadError | ReadPending

definition read :: "readable_stream \<Rightarrow> read_result \<times> readable_stream" where
  "read st =
     (if errored st then (ReadError, st)
      else (case queue st of
              chunk # rest \<Rightarrow> (ReadChunk chunk, st\<lparr>queue := rest\<rparr>)
            | [] \<Rightarrow> (if closeRequested st then ReadDone else ReadPending, st)))"

text \<open>
  The state of one request: the variable \<^verbatim>\<open>aborted\<close> of the callback, the trace, and
  the body stream of the \<^verbatim>\<open>Request\<close> (\<^const>\<open>None\<close> for \<^verbatim>\<open>body: undefined\<close>).
\<close>

record conn =
  aborted :: bool
  trace :: "trace_item list"
  reqBody :: "readable_stream option"

text \<open>
  \<^verbatim>\<open>let aborted = false\<close>, and the \<^verbatim>\<open>body\<close> of the \<^verbatim>\<open>Request\<close>:
  \<^verbatim>\<open>method === "GET" || method === "HEAD" ? undefined : new ReadableStream({...})\<close>.
\<close>

definition new_conn :: "string \<Rightarrow> conn" where
  "new_conn method =
     \<lparr>aborted = False, trace = [],
      reqBody = (if method = ''GET'' \<or> method = ''HEAD'' then None
                 else Some \<lparr>queue = [], closeRequested = False, errored = False\<rparr>)\<rparr>"

text \<open>\<^verbatim>\<open>res.onAborted(() => (aborted = true))\<close>\<close>

definition onAborted :: "conn \<Rightarrow> conn" where
  "onAborted s = s\<lparr>aborted := True, trace := trace s @ [Aborted]\<rparr>"

text \<open>
  \<^verbatim>\<open>res.onData((chunk, isLast) => { controller.enqueue(new Uint8Array(chunk));
  if (isLast) controller.close(); })\<close>. Without a body stream no data callback is
  registered.
\<close>

definition onData :: "conn \<Rightarrow> bytes \<Rightarrow> bool \<Rightarrow> stream_error + conn" where
  "onData s chunk isLast =
     (case reqBody s of
        None \<Rightarrow> Inr s
      | Some st \<Rightarrow>
          (case enqueue st chunk of
             Inl e \<Rightarrow> Inl e
           | Inr st1 \<Rightarrow>
               if isLast
               then (case close st1 of
                       Inl e \<Rightarrow> Inl e
                     | Inr st2 \<Rightarrow> Inr (s\<lparr>reqBody := Some st2\<rparr>))
               else Inr (s\<lparr>reqBody := Some st1\<rparr>)))"

text \<open>The events the engine delivers on one connection, and their effect in order.\<close>

datatype engine_event = Data bytes bool | Abort

fun engine_step :: "conn \<Rightarrow> engine_event \<Rightarrow> stream_error + conn" where
  "engine_step s (Data chunk isLast) = onData s chunk isLast"
| "engine_step s Abort = Inr (onAborted s)"

fun engine_run :: "conn \<Rightarrow> engine_event list \<Rightarrow> stream_error + conn" where
  "engine_run s [] = Inr s"
| "engine_run s (e # es) =
     (case engine_step s e of Inl err \<Rightarrow> Inl err | Inr s' \<Rightarrow> engine_run s' es)"

subsection \<open>handleError and finish\<close>

definition native :: "native_call \<Rightarrow> conn \<Rightarrow> conn" where
  "native c s = s\<lparr>trace := trace s @ [Call c]\<rparr>"

text \<open>
  \<^verbatim>\<open>if (aborted) return; console.error(error);
  res.writeStatus("500 Internal Server Error"); res.end();\<close>
  The console is not modelled.
\<close>

definition handleError :: "conn \<Rightarrow> conn" where
  "handleError s =
     (if aborted s then s
      else native (End None) (native (WriteStatus ''500 Internal Server Error'') s))"

text \<open>
  A \<^verbatim>\<open>Response\<close>: its body is \<^verbatim>\<open>null\<close> or a stream, which yields its chunks and then
  ends, or throws after them.
\<close>

record body_stream =
  chunks :: "bytes list"
  throws :: bool

record response =
  status :: nat
  statusText :: string
  headers :: "(string \<times> string) list"
  body :: "body_stream option"

text \<open>
  \<^verbatim>\<open>`${response.status}${response.statusText ? " " + response.statusText : ""}`\<close>
\<close>

definition status_line :: "response \<Rightarrow> string" where
  "status_line r =
     toString_radix 10 (status r) @ (if statusText r \<noteq> [] then '' '' @ statusText r else [])"

text \<open>\<^verbatim>\<open>new Set(xs)\<close> iterates in the order of first insertion.\<close>

definition Set_of :: "'a list \<Rightarrow> 'a list" where
  "Set_of xs = rev (remdups (rev xs))"

text \<open>
  The header loop of \<^verbatim>\<open>finish\<close>. \<^verbatim>\<open>response.headers.get(name)!\<close> is never \<^verbatim>\<open>null\<close>
  for a name taken from \<^verbatim>\<open>keys()\<close> (lemma \<open>Headers_get_of_key\<close>), so the branch for
  it writes nothing.
\<close>

definition header_calls :: "headers \<Rightarrow> native_call list" where
  "header_calls hs =
     concat (map (\<lambda>name.
                    if name = ''set-cookie''
                    then map (WriteHeader name) (Headers_getSetCookie hs)
                    else (case Headers_get hs name of
                            None \<Rightarrow> []
                          | Some v \<Rightarrow> [WriteHeader name v]))
                 (Set_of (Headers_keys hs)))"

text \<open>
  What happens while \<^verbatim>\<open>for await (const chunk of response.body)\<close> runs: the stream
  yields a chunk, the engine runs the abort callback while the loop awaits, or the
  stream throws.
\<close>

datatype loop_event = Yield bytes | AbortFires | StreamThrows

text \<open>
  The loop and the final flush, with \<^verbatim>\<open>lastChunk\<close> as an argument. The result says
  whether the promise of \<^verbatim>\<open>finish\<close> is rejected.
\<close>

fun write_body :: "conn \<Rightarrow> bytes option \<Rightarrow> loop_event list \<Rightarrow> conn \<times> bool" where
  "write_body s lastChunk [] =
     ((case lastChunk of None \<Rightarrow> s | Some c \<Rightarrow> native (End (Some c)) s), False)"
| "write_body s lastChunk (Yield chunk # evs) =
     write_body (case lastChunk of None \<Rightarrow> s | Some c \<Rightarrow> native (Write c) s) (Some chunk) evs"
| "write_body s lastChunk (AbortFires # evs) = write_body (onAborted s) lastChunk evs"
| "write_body s lastChunk (StreamThrows # evs) = (s, True)"

text \<open>
  The events of a body stream when the abort callback fires after \<open>k\<close> of them were
  delivered (\<open>abort_at = Some k\<close>), or does not fire while the loop runs (\<^const>\<open>None\<close>).
\<close>

definition stream_events :: "body_stream \<Rightarrow> loop_event list" where
  "stream_events b = map Yield (chunks b) @ (if throws b then [StreamThrows] else [])"

definition body_events :: "body_stream \<Rightarrow> nat option \<Rightarrow> loop_event list" where
  "body_events b abort_at =
     (case abort_at of
        None \<Rightarrow> stream_events b
      | Some k \<Rightarrow> take k (stream_events b) @ [AbortFires] @ drop k (stream_events b))"

definition write_head :: "conn \<Rightarrow> response \<Rightarrow> conn" where
  "write_head s r =
     foldl (\<lambda>s c. native c s) (native (WriteStatus (status_line r)) s)
       (header_calls (Headers_of (headers r)))"

definition finish :: "conn \<Rightarrow> response \<Rightarrow> nat option \<Rightarrow> conn \<times> bool" where
  "finish s r abort_at =
     (if aborted s then (s, False)
      else (case body r of
              None \<Rightarrow> (native (End None) (write_head s r), False)
            | Some b \<Rightarrow> write_body (write_head s r) None (body_events b abort_at)))"

subsection \<open>Calling the handler\<close>

text \<open>
  The handler is application code; the callback sees only how the \<^verbatim>\<open>try\<close> block ends:
  the handler returned a \<^verbatim>\<open>Response\<close>, something in the block threw (the handler, or
  the \<^verbatim>\<open>Request\<close> constructor), or the handler returned a promise that is later
  fulfilled with a \<^verbatim>\<open>Response\<close> or rejected.
\<close>

datatype outcome = Returns response | Threw | Resolves response | Rejects

text \<open>\<^verbatim>\<open>finish(response).catch(handleError)\<close>\<close>

definition finish_catch :: "conn \<Rightarrow> response \<Rightarrow> nat option \<Rightarrow> conn" where
  "finish_catch s r abort_at =
     (case finish s r abort_at of (s', rejected) \<Rightarrow> if rejected then handleError s' else s')"

text \<open>
  Lines 129 to 172. \<open>abort_pending\<close> says whether the engine runs the abort callback
  while the handler's promise is pending; a handler that returns or throws
  synchronously leaves the engine no time for that.
\<close>

definition respond :: "conn \<Rightarrow> outcome \<Rightarrow> bool \<Rightarrow> nat option \<Rightarrow> conn" where
  "respond s out abort_pending abort_at =
     (case out of
        Threw \<Rightarrow> handleError s
      | Returns r \<Rightarrow> finish_catch s r abort_at
      | Resolves r \<Rightarrow> finish_catch (if abort_pending then onAborted s else s) r abort_at
      | Rejects \<Rightarrow> handleError (if abort_pending then onAborted s else s))"

text \<open>
  The callback for one request: resolve the origin, call the handler, respond. When
  copying the headers throws, the handler is not called and nothing is written.
\<close>

definition on_request ::
  "'o server \<Rightarrow> (resolved \<Rightarrow> native_request \<Rightarrow> outcome) \<Rightarrow> native_request \<Rightarrow>
   bool \<Rightarrow> nat option \<Rightarrow> callback_error + (conn \<times> 'o server)"
where
  "on_request srv handler req abort_pending abort_at =
     (case resolve srv req of
        Inl e \<Rightarrow> Inl e
      | Inr (r, srv') \<Rightarrow>
          Inr (respond (new_conn (req_method req)) (handler r req) abort_pending abort_at,
               srv'))"

text \<open>The native calls of a trace, and those among them that carry or end the body.\<close>

definition calls :: "trace_item list \<Rightarrow> native_call list" where
  "calls t = concat (map (\<lambda>e. case e of Call c \<Rightarrow> [c] | Aborted \<Rightarrow> []) t)"

fun is_body_call :: "native_call \<Rightarrow> bool" where
  "is_body_call (Write c) = True"
| "is_body_call (End c) = True"
| "is_body_call (WriteStatus l) = False"
| "is_body_call (WriteHeader k v) = False"

text \<open>The part of a trace after the abort callback first ran.\<close>

definition after_abort :: "trace_item list \<Rightarrow> trace_item list" where
  "after_abort t = dropWhile (\<lambda>e. e \<noteq> Aborted) t"

subsection \<open>Notions used in the statements\<close>

text \<open>
  An instance of the parameter \<open>parts\<close> for the concrete runs below: for an input
  \<^verbatim>\<open>scheme://authority\<close>, optionally followed by a path, query or fragment, the
  \<^verbatim>\<open>protocol\<close> is the lowercased scheme with its colon and the \<^verbatim>\<open>host\<close> the
  lowercased authority; any other input is rejected. The general theorems hold for
  every \<open>parts\<close>.
\<close>

definition simple_parts :: "string \<Rightarrow> url option" where
  "simple_parts t =
     (let scheme = takeWhile (\<lambda>c. c \<noteq> CHR '':'') t;
          rest = drop (length scheme + 1) t;
          authority = takeWhile (\<lambda>c. c \<noteq> CHR ''/'' \<and> c \<noteq> CHR ''?'' \<and> c \<noteq> CHR ''#'')
                        (drop 2 rest)
      in if take 2 rest = ''//'' \<and> authority \<noteq> []
         then Some \<lparr>url_protocol = lower scheme @ '':'', url_host = lower authority\<rparr>
         else None)"









text \<open>The header lines written for one name, and the values a header list holds for it.\<close>

fun call_name :: "native_call \<Rightarrow> string option" where
  "call_name (WriteHeader k v) = Some k"
| "call_name (WriteStatus l) = None"
| "call_name (Write c) = None"
| "call_name (End c) = None"

definition header_lines :: "string \<Rightarrow> native_call list \<Rightarrow> native_call list" where
  "header_lines name cs = filter (\<lambda>c. call_name c = Some name) cs"

definition header_values :: "headers \<Rightarrow> string \<Rightarrow> string list" where
  "header_values hs name = map snd (filter (\<lambda>(k, v). k = name) hs)"

text \<open>
  Holding back one chunk: every chunk but the last is written, the last one ends the
  response, and no chunk means no call.
\<close>

fun flush :: "bytes list \<Rightarrow> native_call list" where
  "flush [] = []"
| "flush [c] = [End (Some c)]"
| "flush (c # d # cs) = Write c # flush (d # cs)"

fun yields :: "loop_event list \<Rightarrow> bytes list" where
  "yields [] = []"
| "yields (Yield c # evs) = c # yields evs"
| "yields (AbortFires # evs) = yields evs"
| "yields (StreamThrows # evs) = yields evs"

text \<open>The request body stream of a connection, if any, has not been errored.\<close>

definition never_errored :: "conn \<Rightarrow> bool" where
  "never_errored s = (case reqBody s of None \<Rightarrow> True | Some st \<Rightarrow> \<not> errored st)"

section \<open>Properties\<close>

subsection \<open>Headers\<close>

lemma Headers_of_map:
  "Headers_of entries = map (\<lambda>(k, v). (lower k, http_strip v)) entries"
  by (simp add: Headers_of_def)

lemma of_char_lower_char:
  "\<not> (65 \<le> (of_char (lower_char c) :: nat) \<and> (of_char (lower_char c) :: nat) \<le> 90)"
  by (auto simp: lower_char_def Let_def)

lemma lower_char_idem: "lower_char (lower_char c) = lower_char c"
  using of_char_lower_char[of c] by (auto simp: lower_char_def[of "lower_char c"] Let_def)

lemma lower_idem: "lower (lower s) = lower s"
  by (simp add: lower_def lower_char_idem)


lemma getSetCookie_empty_iff:
  "Headers_getSetCookie hs = [] \<longleftrightarrow> ''set-cookie'' \<notin> fst ` set hs"
  by (force simp: Headers_getSetCookie_def filter_empty_conv)

lemma header_values_empty_iff: "header_values hs n = [] \<longleftrightarrow> n \<notin> fst ` set hs"
  by (force simp: header_values_def filter_empty_conv)

lemma set_Headers_keys: "set (Headers_keys hs) = fst ` set hs"
proof -
  have "set (Headers_keys hs) =
          (\<Union>name \<in> fst ` set hs.
             if name = ''set-cookie''
             then set (replicate (length (Headers_getSetCookie hs)) name) else {name})"
    by (simp add: Headers_keys_def if_distrib[of set] cong: if_cong)
  also have "\<dots> = fst ` set hs"
    using getSetCookie_empty_iff[of hs] by (force split: if_splits)
  finally show ?thesis .
qed

lemma Headers_get_values:
  "Headers_get hs k =
     (if header_values hs (lower k) = [] then None
      else Some (join '', '' (header_values hs (lower k))))"
  by (simp add: Headers_get_def header_values_def)

text \<open>The non-null assertion in the header loop of \<^verbatim>\<open>finish\<close> is justified.\<close>

lemma Headers_get_of_key:
  assumes "name \<in> set (Headers_keys hs)" and "lower name = name"
  shows "Headers_get hs name \<noteq> None"
  using assms by (simp add: set_Headers_keys Headers_get_values header_values_empty_iff)

lemma set_Set_of: "set (Set_of xs) = set xs"
  by (simp add: Set_of_def)

lemma distinct_Set_of: "distinct (Set_of xs)"
  by (simp add: Set_of_def)

lemma filter_concat_distinct:
  assumes "distinct ns"
    and "\<And>m c. m \<in> set ns \<Longrightarrow> c \<in> set (f m) \<Longrightarrow> call_name c = Some m"
  shows "filter (\<lambda>c. call_name c = Some n) (concat (map f ns)) =
           (if n \<in> set ns then f n else [])"
  using assms
proof (induction ns)
  case Nil
  then show ?case by simp
next
  case (Cons a ns)
  have ih: "filter (\<lambda>c. call_name c = Some n) (concat (map f ns)) =
              (if n \<in> set ns then f n else [])"
    using Cons by simp
  have own: "\<And>c. c \<in> set (f a) \<Longrightarrow> call_name c = Some a"
    using Cons.prems(2) by simp
  show ?case
  proof (cases "a = n")
    case True
    then have "n \<notin> set ns" using Cons.prems(1) by simp
    moreover have "filter (\<lambda>c. call_name c = Some n) (f a) = f a"
      using own True by (simp add: filter_id_conv)
    ultimately show ?thesis using ih True by simp
  next
    case False
    have "filter (\<lambda>c. call_name c = Some n) (f a) = []"
      using own False by (auto simp: filter_empty_conv)
    then show ?thesis using ih False by simp
  qed
qed

lemma header_calls_no_body: "filter is_body_call (header_calls hs) = []"
  by (auto simp: header_calls_def filter_concat filter_empty_conv split: option.splits)

subsection \<open>Origin resolution\<close>

lemma resolve_defined:
  "resolve srv req = Inr (r, srv') \<Longrightarrow> truthy (protocol srv') \<and> truthy (host srv')"
  by (auto simp: resolve_def Let_def js_or_def truthy_def split: if_splits sum.splits)

text \<open>
  Once a request has been served, \<^verbatim>\<open>protocol\<close> and \<^verbatim>\<open>host\<close> are truthy, so the
  next request takes the first alternative of both \<^verbatim>\<open>||\<close> chains: it resolves to
  the scheme and host of the request before it, whatever its own headers say.
\<close>

lemma resolve_sticky:
  assumes "resolve srv req = Inr (r, srv')" and "resolve srv' req' = Inr (r', srv'')"
  shows "r_protocol r' = r_protocol r \<and> r_host r' = r_host r \<and>
         protocol srv'' = protocol srv' \<and> host srv'' = host srv'"
proof -
  from resolve_defined[OF assms(1)]
  have t: "truthy (protocol srv')" "truthy (host srv')" by auto
  have 1: "r_protocol r = js_str (protocol srv')" "r_host r = js_str (host srv')"
    using assms(1) by (auto simp: resolve_def Let_def split: sum.splits)
  show ?thesis using assms(2) t 1
    by (auto simp: resolve_def Let_def js_or_def split: sum.splits)
qed

text \<open>
  Claim C1 says that the scheme and host resolved for a request depend on that request
  and the configuration only, not on an earlier request of the same server. The code
  does otherwise: a server created with no origin serves a request with
  \<^verbatim>\<open>host: a.example\<close> and then one with \<^verbatim>\<open>host: b.example\<close>, and resolves the
  second to \<^verbatim>\<open>http://a.example/\<close>; served first, the same request resolves to
  \<^verbatim>\<open>http://b.example/\<close>.
\<close>

theorem second_request_resolves_first_host:
  "createServer simple_parts \<lparr>ORIGIN = None, TRUST_PROXY = None\<rparr> None (None :: unit option) =
     Inr \<lparr>app = App None, srv_trustProxy = False, srv_ssl = False,
          protocol = None, host = None\<rparr>
   \<and> map (map_sum id r_url)
       (serve \<lparr>app = App (None :: unit option), srv_trustProxy = False,
               srv_ssl = False, protocol = None, host = None\<rparr>
       [\<lparr>req_method = ''GET'', req_url = ''/'', req_query = [],
         req_headers = [(js ''host'', js ''a.example'')], remoteAddress = [10, 0, 0, 1]\<rparr>,
        \<lparr>req_method = ''GET'', req_url = ''/'', req_query = [],
         req_headers = [(js ''host'', js ''b.example'')], remoteAddress = [10, 0, 0, 2]\<rparr>]) =
       [Inr ''http://a.example/'', Inr ''http://a.example/'']
   \<and> map (map_sum id r_url)
       (serve \<lparr>app = App (None :: unit option), srv_trustProxy = False,
               srv_ssl = False, protocol = None, host = None\<rparr>
       [\<lparr>req_method = ''GET'', req_url = ''/'', req_query = [],
         req_headers = [(js ''host'', js ''b.example'')], remoteAddress = [10, 0, 0, 2]\<rparr>]) =
       [Inr ''http://b.example/'']"
  by code_simp
















subsection \<open>createServer without appOptions\<close>

text \<open>
  Claim C10 says that every call with \<^verbatim>\<open>ssl: true\<close> and no \<^verbatim>\<open>appOptions\<close> throws
  the error \<^verbatim>\<open>SSL requires appOptions\<close>. The origin is parsed before that check, so a
  call whose origin the URL constructor rejects throws the constructor's
  \<^verbatim>\<open>TypeError\<close> instead: here the origin \<^verbatim>\<open>example.com\<close>, which has no scheme.
\<close>

theorem createServer_ssl_invalid_origin:
  "createServer simple_parts \<lparr>ORIGIN = None, TRUST_PROXY = None\<rparr>
     (Some \<lparr>origin = Some ''example.com'', trustProxy = None, ssl = Some True,
            configureServer = None\<rparr>) (None :: unit option) = Inl TypeError_Invalid_URL
   \<and> createServer simple_parts \<lparr>ORIGIN = None, TRUST_PROXY = None\<rparr>
     (Some \<lparr>origin = Some ''example.com'', trustProxy = None, ssl = Some True,
            configureServer = None\<rparr>) (None :: unit option) \<noteq>
       Inl Error_SSL_requires_appOptions"
proof -
  have "URL_new simple_parts ''example.com'' = None"
    by code_simp
  then show ?thesis
    by (simp add: createServer_def origin_parts_def)
qed

text \<open>
  Claim C10, amended: every call with \<^verbatim>\<open>ssl: true\<close> and no \<^verbatim>\<open>appOptions\<close> throws
  synchronously and returns no server, so no app is created and the handler is never
  called. The error is \<^verbatim>\<open>SSL requires appOptions\<close> whenever the origin (the option,
  else \<^verbatim>\<open>process.env.ORIGIN\<close>) is absent, empty or accepted by the URL constructor,
  and the constructor's \<^verbatim>\<open>TypeError\<close> otherwise.
\<close>

theorem createServer_ssl_without_appOptions:
  assumes "ssl opts = Some True"
  shows "createServer parts env (Some opts) None =
           (case (case origin opts of None \<Rightarrow> ORIGIN env | Some s \<Rightarrow> Some s) of
              None \<Rightarrow> Inl Error_SSL_requires_appOptions
            | Some s \<Rightarrow>
                if s \<noteq> [] \<and> URL_new parts s = None then Inl TypeError_Invalid_URL
                else Inl Error_SSL_requires_appOptions)"
  using assms
  by (auto simp: createServer_def origin_parts_def make_app_def Let_def
           split: option.splits sum.splits)

theorem createServer_ssl_without_appOptions_witness:
  "createServer simple_parts \<lparr>ORIGIN = None, TRUST_PROXY = None\<rparr>
     (Some \<lparr>origin = Some ''https://example.com'', trustProxy = None, ssl = Some True,
            configureServer = None\<rparr>) (None :: unit option) =
     Inl Error_SSL_requires_appOptions
   \<and> URL_new simple_parts ''https://example.com'' =
       Some \<lparr>url_protocol = ''https:'', url_host = ''example.com''\<rparr>"
proof -
  have u: "URL_new simple_parts ''https://example.com'' =
       Some \<lparr>url_protocol = ''https:'', url_host = ''example.com''\<rparr>"
    by code_simp
  show ?thesis
    using createServer_ssl_without_appOptions[of
        "\<lparr>origin = Some ''https://example.com'', trustProxy = None, ssl = Some True,
          configureServer = None\<rparr>" simple_parts "\<lparr>ORIGIN = None, TRUST_PROXY = None\<rparr>"] u
    by simp
qed

subsection \<open>The native calls of the response writer\<close>

lemma calls_simps:
  "calls [] = []" "calls (Call c # t) = c # calls t" "calls (Aborted # t) = calls t"
  by (simp_all add: calls_def)

lemma calls_append: "calls (xs @ ys) = calls xs @ calls ys"
  by (simp add: calls_def)

lemma calls_map_Call: "calls (map Call cs) = cs"
  by (induction cs) (simp_all add: calls_simps)

lemma calls_native: "calls (trace (native c s)) = calls (trace s) @ [c]"
  by (simp add: native_def calls_append calls_simps)

lemma calls_onAborted: "calls (trace (onAborted s)) = calls (trace s)"
  by (simp add: onAborted_def calls_append calls_simps)

lemma native_fold: "foldl (\<lambda>s c. native c s) s cs = s\<lparr>trace := trace s @ map Call cs\<rparr>"
  by (induction cs arbitrary: s) (auto simp: native_def)

lemma write_head_eq:
  "write_head s r =
     s\<lparr>trace := trace s @
          map Call (WriteStatus (status_line r) # header_calls (Headers_of (headers r)))\<rparr>"
  by (simp add: write_head_def native_fold) (simp add: native_def)

text \<open>
  The loop of \<^verbatim>\<open>finish\<close> never reads \<^verbatim>\<open>aborted\<close>: for a stream that does not
  throw, its native calls are those of \<^const>\<open>flush\<close> on the chunks, wherever the
  abort callback fires.
\<close>

lemma write_body_calls:
  "StreamThrows \<notin> set evs \<Longrightarrow>
   calls (trace (fst (write_body s lastChunk evs))) =
     calls (trace s) @ flush ((case lastChunk of None \<Rightarrow> [] | Some c \<Rightarrow> [c]) @ yields evs)"
proof (induction s lastChunk evs rule: write_body.induct)
  case (1 s lastChunk)
  then show ?case by (cases lastChunk) (simp_all add: calls_native)
next
  case (2 s lastChunk chunk evs)
  then show ?case by (cases lastChunk) (simp_all add: calls_native)
next
  case (3 s lastChunk evs)
  then show ?case by (simp add: calls_onAborted)
next
  case (4 s lastChunk evs)
  then show ?case by simp
qed

lemma yields_body_events: "yields (body_events b abort_at) = chunks b"
proof -
  have y: "yields (map Yield cs @ rest) = cs @ yields rest" for cs rest
    by (induction cs) simp_all
  have s: "yields (stream_events b) = chunks b"
    using y[of "chunks b" "if throws b then [StreamThrows] else []"]
    by (simp add: stream_events_def)
  have a: "yields (xs @ ys) = yields xs @ yields ys" for xs ys
    by (induction xs rule: yields.induct) simp_all
  show ?thesis
  proof (cases abort_at)
    case None
    then show ?thesis by (simp add: body_events_def s)
  next
    case (Some k)
    have "yields (take k (stream_events b) @ [AbortFires] @ drop k (stream_events b)) =
          yields (take k (stream_events b)) @ yields (drop k (stream_events b))"
      by (simp add: a)
    also have "\<dots> = yields (take k (stream_events b) @ drop k (stream_events b))"
      by (simp only: a)
    also have "\<dots> = yields (stream_events b)"
      by simp
    finally show ?thesis using Some by (simp add: body_events_def s)
  qed
qed

lemma finish_stream_calls:
  assumes "\<not> aborted s" and "body r = Some b" and "\<not> throws b"
  shows "calls (trace (fst (finish s r abort_at))) =
           calls (trace s) @
           WriteStatus (status_line r) # header_calls (Headers_of (headers r)) @
           flush (chunks b)"
proof -
  have nt: "StreamThrows \<notin> set (body_events b abort_at)"
    using assms(3)
    by (auto simp: body_events_def stream_events_def split: option.splits
             dest: in_set_takeD in_set_dropD)
  show ?thesis
    using assms(1,2) write_body_calls[OF nt, of "write_head s r" None]
    by (simp add: finish_def yields_body_events write_head_eq calls_append calls_map_Call
          calls_simps)
qed

text \<open>A response without a body is ended inside the header step, by one \<^verbatim>\<open>res.end()\<close>.\<close>

lemma finish_no_body:
  assumes "\<not> aborted s" and "body r = None"
  shows "calls (trace (fst (finish s r abort_at))) =
           calls (trace s) @
           WriteStatus (status_line r) # header_calls (Headers_of (headers r)) @ [End None]"
  using assms
  by (simp add: finish_def write_head_eq native_def calls_append calls_map_Call calls_simps)

text \<open>
  Claim C7: a body stream yielding exactly the chunks \<open>A\<close>, \<open>B\<close>, \<open>C\<close>, with no abort,
  makes the writer issue, after the status line and the headers, exactly three native
  calls in this order: a non-final write of \<open>A\<close>, a non-final write of \<open>B\<close>, and a
  final write of \<open>C\<close> that ends the response.
\<close>

theorem finish_three_chunks:
  assumes "\<not> aborted s" and "body r = Some \<lparr>chunks = [A, B, C], throws = False\<rparr>"
  shows "finish s r None =
           (s\<lparr>trace := trace s
                @ map Call (WriteStatus (status_line r) # header_calls (Headers_of (headers r)))
                @ [Call (Write A), Call (Write B), Call (End (Some C))]\<rparr>, False)
         \<and> filter is_body_call (calls (trace (fst (finish s r None)))) =
             filter is_body_call (calls (trace s)) @ [Write A, Write B, End (Some C)]"
proof -
  have ev: "body_events \<lparr>chunks = [A, B, C], throws = False\<rparr> None =
              [Yield A, Yield B, Yield C]"
    by (simp add: body_events_def stream_events_def)
  have 1: "finish s r None =
           (s\<lparr>trace := trace s
                @ map Call (WriteStatus (status_line r) # header_calls (Headers_of (headers r)))
                @ [Call (Write A), Call (Write B), Call (End (Some C))]\<rparr>, False)"
    using assms
    by (simp add: finish_def ev write_head_eq native_def)
  show ?thesis
    unfolding 1
    by (simp add: calls_append calls_map_Call header_calls_no_body calls_simps)
qed

theorem finish_three_chunks_witness:
  "finish (new_conn ''GET'')
     \<lparr>status = 200, statusText = ''OK'', headers = [(''Content-Type'', ''text/plain'')],
      body = Some \<lparr>chunks = [[1], [2, 3], [4]], throws = False\<rparr>\<rparr> None =
   (\<lparr>aborted = False,
     trace = [Call (WriteStatus ''200 OK''), Call (WriteHeader ''content-type'' ''text/plain''),
              Call (Write [1]), Call (Write [2, 3]), Call (End (Some [4]))],
     reqBody = None\<rparr>, False)"
proof -
  have a: "\<not> aborted (new_conn ''GET'')"
    by (simp add: new_conn_def)
  have h: "WriteStatus (status_line
             \<lparr>status = 200, statusText = ''OK'', headers = [(''Content-Type'', ''text/plain'')],
              body = Some \<lparr>chunks = [[1], [2, 3], [4]], throws = False\<rparr>\<rparr>) #
           header_calls (Headers_of [(''Content-Type'', ''text/plain'')]) =
           [WriteStatus ''200 OK'', WriteHeader ''content-type'' ''text/plain'']"
    by code_simp
  show ?thesis
    using finish_three_chunks[OF a,
        of "\<lparr>status = 200, statusText = ''OK'', headers = [(''Content-Type'', ''text/plain'')],
             body = Some \<lparr>chunks = [[1], [2, 3], [4]], throws = False\<rparr>\<rparr>" "[1]" "[2, 3]" "[4]"] h
    by (simp add: new_conn_def)
qed

text \<open>
  Claim C8: when the abort flag is set before the handler's response reaches the
  writer, nothing is written: \<^verbatim>\<open>finish\<close> returns at once with the connection as it
  was, no status line, header or body call is made, and the response is dropped. That
  is the case of a handler whose promise is fulfilled after the abort callback ran.
\<close>

theorem finish_when_aborted:
  "(aborted s \<longrightarrow>
      finish s r abort_at = (s, False) \<and> finish_catch s r abort_at = s \<and> handleError s = s)
   \<and> respond s (Resolves r) True abort_at = onAborted s
   \<and> calls (trace (respond s (Resolves r) True abort_at)) = calls (trace s)"
  by (simp add: finish_def finish_catch_def handleError_def respond_def onAborted_def
        calls_append calls_simps)

theorem finish_when_aborted_witness:
  "calls (trace (respond (new_conn ''POST'')
     (Resolves \<lparr>status = 200, statusText = ''OK'', headers = [(''set-cookie'', ''a=1'')],
                body = Some \<lparr>chunks = [[1], [2]], throws = False\<rparr>\<rparr>) True None)) = []
   \<and> aborted (onAborted (new_conn ''POST''))
   \<and> finish (onAborted (new_conn ''POST''))
        \<lparr>status = 200, statusText = ''OK'', headers = [(''set-cookie'', ''a=1'')],
         body = Some \<lparr>chunks = [[1], [2]], throws = False\<rparr>\<rparr> None =
       (onAborted (new_conn ''POST''), False)"
  using finish_when_aborted[of "new_conn ''POST''"
      "\<lparr>status = 200, statusText = ''OK'', headers = [(''set-cookie'', ''a=1'')],
        body = Some \<lparr>chunks = [[1], [2]], throws = False\<rparr>\<rparr>" None]
    finish_when_aborted[of "onAborted (new_conn ''POST'')"
      "\<lparr>status = 200, statusText = ''OK'', headers = [(''set-cookie'', ''a=1'')],
        body = Some \<lparr>chunks = [[1], [2]], throws = False\<rparr>\<rparr>" None]
  by (simp add: new_conn_def onAborted_def calls_simps)

text \<open>
  Claim C9: when the handler throws synchronously or its promise is rejected, and the
  abort flag is not set, exactly one response is written: the status line
  \<^verbatim>\<open>500 Internal Server Error\<close> and an end without body, with no header and no
  detail of the error. When the abort flag is set by then, the error is swallowed and
  no native call is made.
\<close>

theorem handler_error_response:
  "(\<not> aborted s \<longrightarrow>
      trace (respond s Threw abort_pending abort_at) =
        trace s @ [Call (WriteStatus ''500 Internal Server Error''), Call (End None)]
      \<and> trace (respond s Rejects False abort_at) =
        trace s @ [Call (WriteStatus ''500 Internal Server Error''), Call (End None)])
   \<and> respond s Rejects True abort_at = onAborted s
   \<and> calls (trace (respond s Rejects True abort_at)) = calls (trace s)
   \<and> (aborted s \<longrightarrow>
        respond s Threw abort_pending abort_at = s
        \<and> calls (trace (respond s Rejects abort_pending abort_at)) = calls (trace s))"
  by (simp add: respond_def handleError_def native_def onAborted_def calls_append calls_simps)

theorem handler_error_response_witness:
  "trace (respond (new_conn ''POST'') Threw False None) =
     [Call (WriteStatus ''500 Internal Server Error''), Call (End None)]
   \<and> trace (respond (new_conn ''POST'') Rejects False None) =
     [Call (WriteStatus ''500 Internal Server Error''), Call (End None)]
   \<and> trace (respond (new_conn ''POST'') Rejects True None) = [Aborted]
   \<and> aborted (onAborted (new_conn ''POST''))
   \<and> respond (onAborted (new_conn ''POST'')) Threw False None = onAborted (new_conn ''POST'')"
  using handler_error_response[of "new_conn ''POST''" False None]
    handler_error_response[of "onAborted (new_conn ''POST'')" False None]
  by (simp add: new_conn_def onAborted_def)

subsection \<open>Header lines\<close>

text \<open>
  Claim C4 says that every header name with several values is written as one line per
  value. The code does that for \<^verbatim>\<open>set-cookie\<close> only: for any other name it writes
  \<^verbatim>\<open>response.headers.get(name)\<close>, which joins the values. A response with
  \<^verbatim>\<open>vary: accept\<close> and \<^verbatim>\<open>vary: origin\<close> gets the single line
  \<^verbatim>\<open>vary: accept, origin\<close>.
\<close>

theorem joined_header_line:
  "header_lines ''vary''
     (header_calls (Headers_of [(''vary'', ''accept''), (''vary'', ''origin'')])) =
     [WriteHeader ''vary'' ''accept, origin'']
   \<and> length (header_lines ''vary''
        (header_calls (Headers_of [(''vary'', ''accept''), (''vary'', ''origin'')]))) \<noteq>
     length (header_values (Headers_of [(''vary'', ''accept''), (''vary'', ''origin'')]) ''vary'')"
  by code_simp

text \<open>
  Claim C4, amended: the writer emits one separate \<^verbatim>\<open>set-cookie\<close> line per value of
  \<^verbatim>\<open>set-cookie\<close>, in order, never a joined one; for every other name that the
  response holds it emits exactly one line, whose value is the name's values joined by
  a comma and a space, and for a name the response does not hold it emits none.
\<close>

theorem header_calls_lines:
  "header_lines ''set-cookie'' (header_calls hs) =
     map (WriteHeader ''set-cookie'') (Headers_getSetCookie hs)
   \<and> (lower k \<noteq> ''set-cookie'' \<longrightarrow>
        header_lines (lower k) (header_calls hs) =
          (if header_values hs (lower k) = [] then []
           else [WriteHeader (lower k) (join '', '' (header_values hs (lower k)))]))"
proof -
  let ?f = "\<lambda>name. if name = ''set-cookie''
                    then map (WriteHeader name) (Headers_getSetCookie hs)
                    else (case Headers_get hs name of
                            None \<Rightarrow> []
                          | Some v \<Rightarrow> [WriteHeader name v])"
  have own: "\<And>m c. m \<in> set (Set_of (Headers_keys hs)) \<Longrightarrow> c \<in> set (?f m) \<Longrightarrow>
               call_name c = Some m"
    by (auto split: if_splits option.splits)
  have gen: "header_lines n (header_calls hs) = (if n \<in> fst ` set hs then ?f n else [])" for n
    unfolding header_lines_def header_calls_def
    using filter_concat_distinct[of "Set_of (Headers_keys hs)" ?f n, OF distinct_Set_of own]
    by (simp add: set_Set_of set_Headers_keys)
  have 1: "header_lines ''set-cookie'' (header_calls hs) =
     map (WriteHeader ''set-cookie'') (Headers_getSetCookie hs)"
    using getSetCookie_empty_iff[of hs] by (simp add: gen)
  have 2: "header_lines (lower k) (header_calls hs) =
          (if header_values hs (lower k) = [] then []
           else [WriteHeader (lower k) (join '', '' (header_values hs (lower k)))])"
    if "lower k \<noteq> ''set-cookie''"
    using that header_values_empty_iff[of hs "lower k"]
    by (simp add: gen Headers_get_values lower_idem)
  show ?thesis using 1 2 by blast
qed

theorem header_calls_lines_witness:
  "header_lines ''set-cookie''
     (header_calls (Headers_of [(''Set-Cookie'', ''a=1''), (''Vary'', ''accept''),
                                (''Set-Cookie'', ''b=2''), (''vary'', ''origin'')])) =
     [WriteHeader ''set-cookie'' ''a=1'', WriteHeader ''set-cookie'' ''b=2'']
   \<and> lower ''Vary'' \<noteq> ''set-cookie''
   \<and> header_lines ''vary''
     (header_calls (Headers_of [(''Set-Cookie'', ''a=1''), (''Vary'', ''accept''),
                                (''Set-Cookie'', ''b=2''), (''vary'', ''origin'')])) =
     [WriteHeader ''vary'' ''accept, origin'']"
proof -
  have a: "Headers_getSetCookie
             (Headers_of [(''Set-Cookie'', ''a=1''), (''Vary'', ''accept''),
                          (''Set-Cookie'', ''b=2''), (''vary'', ''origin'')]) =
           [''a=1'', ''b=2'']"
    by code_simp
  have b: "lower ''Vary'' = ''vary''"
    by code_simp
  have c: "header_values
             (Headers_of [(''Set-Cookie'', ''a=1''), (''Vary'', ''accept''),
                          (''Set-Cookie'', ''b=2''), (''vary'', ''origin'')]) ''vary'' =
           [''accept'', ''origin'']"
    by code_simp
  show ?thesis
    using header_calls_lines[of
        "Headers_of [(''Set-Cookie'', ''a=1''), (''Vary'', ''accept''),
                     (''Set-Cookie'', ''b=2''), (''vary'', ''origin'')]" "''Vary''"]
    by (simp add: a b c)
qed

subsection \<open>Body streams: no chunk, and an abort between chunks\<close>

text \<open>
  Claim C5 says that a response without a body, or with a body stream that yields no
  chunk, gets exactly one native completion signal and no body write. Without a body
  the code does so (lemma \<open>finish_no_body\<close>). With a body stream that yields no chunk
  it does not: \<^verbatim>\<open>response.body\<close> is truthy, so the header step does not call
  \<^verbatim>\<open>res.end()\<close>; the loop runs no iteration, \<^verbatim>\<open>lastChunk\<close> stays undefined, and the
  final \<^verbatim>\<open>res.end(lastChunk)\<close> is skipped. The status line is the only native call,
  and the response is never ended.
\<close>

theorem empty_stream_never_ended:
  "finish (new_conn ''GET'')
     \<lparr>status = 200, statusText = ''OK'', headers = [],
      body = Some \<lparr>chunks = [], throws = False\<rparr>\<rparr> None =
   (\<lparr>aborted = False, trace = [Call (WriteStatus ''200 OK'')], reqBody = None\<rparr>, False)
   \<and> filter is_body_call
       (calls (trace (fst (finish (new_conn ''GET'')
          \<lparr>status = 200, statusText = ''OK'', headers = [],
           body = Some \<lparr>chunks = [], throws = False\<rparr>\<rparr> None)))) = []"
  by code_simp

text \<open>
  Claim C2 says that the abort flag is checked again before every chunk write, so that
  no native write or end follows the abort and the rest of the stream is drained. The
  code reads \<^verbatim>\<open>aborted\<close> once, on entry to \<^verbatim>\<open>finish\<close>. For a body of two chunks
  and an abort that fires after the first chunk arrived, both \<^verbatim>\<open>res.write\<close> of the
  first chunk and \<^verbatim>\<open>res.end\<close> of the second are issued after the abort.
\<close>

theorem write_after_abort:
  "finish (new_conn ''GET'')
     \<lparr>status = 200, statusText = ''OK'', headers = [],
      body = Some \<lparr>chunks = [[1], [2]], throws = False\<rparr>\<rparr> (Some 1) =
   (\<lparr>aborted = True,
     trace = [Call (WriteStatus ''200 OK''), Aborted, Call (Write [1]), Call (End (Some [2]))],
     reqBody = None\<rparr>, False)
   \<and> calls (after_abort
        [Call (WriteStatus ''200 OK''), Aborted, Call (Write [1]), Call (End (Some [2]))]) =
       [Write [1], End (Some [2])]"
  by code_simp

subsection \<open>The request body stream and the abort flag\<close>

lemma never_errored_new_conn: "never_errored (new_conn m)"
  by (simp add: never_errored_def new_conn_def)

lemma never_errored_step:
  "never_errored s \<Longrightarrow> engine_step s e = Inr s' \<Longrightarrow> never_errored s'"
  by (cases e)
     (auto simp: never_errored_def onData_def onAborted_def enqueue_def close_def
           split: option.splits sum.splits if_splits)

lemma never_errored_run:
  "never_errored s \<Longrightarrow> engine_run s es = Inr s' \<Longrightarrow> never_errored s'"
proof (induction es arbitrary: s)
  case Nil
  then show ?case by simp
next
  case (Cons e es)
  then show ?case
    by (cases "engine_step s e") (auto dest: never_errored_step)
qed

text \<open>
  Claim C6 says that once the abort flag is set, a pending or future read of the
  request body fails with a cancellation error. The abort callback only sets
  \<^verbatim>\<open>aborted\<close>; nothing calls \<^verbatim>\<open>controller.error\<close>. After an abort on a request with
  a body and no data, a read stays pending and does not fail.
\<close>

theorem read_after_abort_pending:
  "engine_run (new_conn ''POST'') [Abort] =
     Inr \<lparr>aborted = True, trace = [Aborted],
          reqBody = Some \<lparr>queue = [], closeRequested = False, errored = False\<rparr>\<rparr>
   \<and> fst (read \<lparr>queue = [], closeRequested = False, errored = False\<rparr>) = ReadPending
   \<and> fst (read \<lparr>queue = [], closeRequested = False, errored = False\<rparr>) \<noteq> ReadError"
  by (simp add: new_conn_def onAborted_def read_def)

text \<open>
  Claim C6, amended: setting the abort flag leaves the request body stream as it was,
  and the adapter never errors that stream. After any sequence of data and abort
  events, a read returns the oldest chunk that was enqueued and not yet read, reports
  the end when the last chunk has arrived and the queue is empty, and is pending
  otherwise; it never fails with a cancellation error.
\<close>

theorem abort_leaves_request_body:
  "reqBody (onAborted s) = reqBody s
   \<and> (engine_run (new_conn m) es = Inr s' \<longrightarrow>
        (case reqBody s' of
           None \<Rightarrow> True
         | Some st \<Rightarrow>
             \<not> errored st \<and>
             fst (read st) \<noteq> ReadError \<and>
             fst (read st) =
               (case queue st of
                  chunk # rest \<Rightarrow> ReadChunk chunk
                | [] \<Rightarrow> if closeRequested st then ReadDone else ReadPending)))"
proof -
  have "never_errored s'" if "engine_run (new_conn m) es = Inr s'"
    using never_errored_run[OF never_errored_new_conn that] .
  then show ?thesis
    by (auto simp: never_errored_def onAborted_def read_def split: option.splits list.splits)
qed

theorem abort_leaves_request_body_witness:
  "engine_run (new_conn ''POST'') [Data [1] False, Abort] =
     Inr \<lparr>aborted = True, trace = [Aborted],
          reqBody = Some \<lparr>queue = [[1]], closeRequested = False, errored = False\<rparr>\<rparr>
   \<and> fst (read \<lparr>queue = [[1]], closeRequested = False, errored = False\<rparr>) = ReadChunk [1]"
  using abort_leaves_request_body[of "new_conn ''POST''" "''POST''" "[Data [1] False, Abort]"
      "\<lparr>aborted = True, trace = [Aborted],
        reqBody = Some \<lparr>queue = [[1]], closeRequested = False, errored = False\<rparr>\<rparr>"]
  by (simp add: new_conn_def onData_def enqueue_def onAborted_def)

end
